theory Spec2Isabelle
  imports Main "HOL-Library.Sublist"
begin

section \<open>JavaScript values and strings\<close>

text \<open>
  The client is written in JavaScript: every value that arrives from the service is the
  result of \<^verbatim>\<open>response.json()\<close> and is untyped. A JSON document is modelled by
  \<open>jsval\<close>; \<open>JUndefined\<close> is the value of a property that is not there. An object is an
  association list whose order is the order of \<^verbatim>\<open>Object.keys\<close>. Numbers are the
  integers that JavaScript prints in plain decimal notation. A string is a list of code
  units below 256.
\<close>

datatype jsval =
    JUndefined
  | JNull
  | JBool bool
  | JNum int
  | JStr string
  | JArr "jsval list"
  | JObj "(string \<times> jsval) list"

datatype exn = TypeError | NetworkError | SyntaxError

text \<open>\<^verbatim>\<open>!!v\<close>: the values that count as true in a condition.\<close>

fun truthy :: "jsval \<Rightarrow> bool" where
  "truthy JUndefined = False"
| "truthy JNull = False"
| "truthy (JBool b) = b"
| "truthy (JNum n) = (n \<noteq> 0)"
| "truthy (JStr s) = (s \<noteq> [])"
| "truthy (JArr xs) = True"
| "truthy (JObj kvs) = True"

text \<open>\<^verbatim>\<open>a || b\<close>\<close>

definition js_or :: "jsval \<Rightarrow> jsval \<Rightarrow> jsval" where
  "js_or a b = (if truthy a then a else b)"

subsection \<open>Decimal numerals\<close>

definition digit_char :: "nat \<Rightarrow> char" where
  "digit_char d = char_of (48 + d)"

fun show_nat_fuel :: "nat \<Rightarrow> nat \<Rightarrow> string" where
  "show_nat_fuel 0 n = [digit_char (n mod 10)]"
| "show_nat_fuel (Suc k) n =
     (if n < 10 then [digit_char n] else show_nat_fuel k (n div 10) @ [digit_char (n mod 10)])"

text \<open>A number below \<open>10 ^ (n + 1)\<close> has at most \<open>n + 1\<close> digits, so \<open>n\<close> is enough fuel.\<close>

definition show_nat :: "nat \<Rightarrow> string" where
  "show_nat n = show_nat_fuel n n"

definition show_int :: "int \<Rightarrow> string" where
  "show_int i = (if i < 0 then CHR ''-'' # show_nat (nat (- i)) else show_nat (nat i))"

subsection \<open>String operations\<close>

text \<open>\<^verbatim>\<open>xs.join(sep)\<close> on an array of strings.\<close>

fun js_join :: "string \<Rightarrow> string list \<Rightarrow> string" where
  "js_join sep [] = []"
| "js_join sep [x] = x"
| "js_join sep (x # y # ys) = x @ sep @ js_join sep (y # ys)"

text \<open>
  \<^verbatim>\<open>s.split(c)\<close> for a separator of one character: the result always has at least one
  piece, and \<^verbatim>\<open>''.split(c)\<close> is \<^verbatim>\<open>['']\<close>.
\<close>

fun js_split :: "char \<Rightarrow> string \<Rightarrow> string list" where
  "js_split c [] = [[]]"
| "js_split c (x # xs) =
     (if x = c then [] # js_split c xs
      else (case js_split c xs of
              [] \<Rightarrow> [[x]]
            | w # ws \<Rightarrow> (x # w) # ws))"

text \<open>
  \<^verbatim>\<open>s.toLowerCase()\<close> on code units below 256: the letters A to Z and the Latin-1
  capitals (0xC0 to 0xDE without the multiplication sign 0xD7) move up by 32.
\<close>

definition lower_char :: "char \<Rightarrow> char" where
  "lower_char c =
     (let n = (of_char c :: nat)
      in if (65 \<le> n \<and> n \<le> 90) \<or> (192 \<le> n \<and> n \<le> 222 \<and> n \<noteq> 215)
         then char_of (n + 32) else c)"

definition toLowerCase :: "string \<Rightarrow> string" where
  "toLowerCase s = map lower_char s"

text \<open>
  \<^verbatim>\<open>s.trim()\<close>: the white space and line terminators below 256 are TAB, LF, VT, FF,
  CR, SP and NBSP.
\<close>

definition is_space :: "char \<Rightarrow> bool" where
  "is_space c = ((of_char c :: nat) \<in> {9, 10, 11, 12, 13, 32, 160})"

definition trim :: "string \<Rightarrow> string" where
  "trim s = rev (dropWhile is_space (rev (dropWhile is_space s)))"

text \<open>\<^verbatim>\<open>s.includes(c)\<close> for one character.\<close>

definition js_includes :: "string \<Rightarrow> char \<Rightarrow> bool" where
  "js_includes s c = (c \<in> set s)"

subsection \<open>Property access\<close>

text \<open>
  \<^verbatim>\<open>v[k]\<close> and \<^verbatim>\<open>v.k\<close>. Reading a property of \<^verbatim>\<open>undefined\<close> or
  \<^verbatim>\<open>null\<close> throws a TypeError. Arrays and strings have their indices and
  \<^verbatim>\<open>length\<close>. The members that every value inherits from its prototype (methods such
  as \<^verbatim>\<open>toString\<close>) are not modelled: the fixed property names the client reads
  (\<^verbatim>\<open>status\<close>, \<^verbatim>\<open>source\<close>, \<^verbatim>\<open>message\<close>, ...) are none of them. Where the
  name comes from the data, as the headers of the exporter do, \<open>get_prop\<close> is the read of
  the code for a value that owns the property (\<open>owns\<close> below), and a statement about such
  a read asks for that.
\<close>

definition index_of_key :: "string \<Rightarrow> nat \<Rightarrow> nat option" where
  "index_of_key k n = find (\<lambda>i. show_nat i = k) [0..<n]"

fun get_prop :: "jsval \<Rightarrow> string \<Rightarrow> exn + jsval" where
  "get_prop JUndefined k = Inl TypeError"
| "get_prop JNull k = Inl TypeError"
| "get_prop (JObj kvs) k = Inr (case map_of kvs k of None \<Rightarrow> JUndefined | Some v \<Rightarrow> v)"
| "get_prop (JArr xs) k =
     Inr (if k = ''length'' then JNum (int (length xs))
          else (case index_of_key k (length xs) of None \<Rightarrow> JUndefined | Some i \<Rightarrow> xs ! i))"
| "get_prop (JStr s) k =
     Inr (if k = ''length'' then JNum (int (length s))
          else (case index_of_key k (length s) of None \<Rightarrow> JUndefined | Some i \<Rightarrow> JStr [s ! i]))"
| "get_prop (JBool b) k = Inr JUndefined"
| "get_prop (JNum n) k = Inr JUndefined"

text \<open>\<^verbatim>\<open>Object.keys(v)\<close>\<close>

fun object_keys :: "jsval \<Rightarrow> exn + string list" where
  "object_keys JUndefined = Inl TypeError"
| "object_keys JNull = Inl TypeError"
| "object_keys (JObj kvs) = Inr (map fst kvs)"
| "object_keys (JArr xs) = Inr (map show_nat [0..<length xs])"
| "object_keys (JStr s) = Inr (map show_nat [0..<length s])"
| "object_keys (JBool b) = Inr []"
| "object_keys (JNum n) = Inr []"



subsection \<open>Exceptions and the network\<close>

text \<open>
  A computation that may throw returns \<open>exn + 'a\<close>. \<open>and_then\<close> runs the rest of a
  block only when the first part did not throw.
\<close>

definition and_then :: "exn + 'a \<Rightarrow> ('a \<Rightarrow> exn + 'b) \<Rightarrow> exn + 'b" where
  "and_then m f = (case m of Inl e \<Rightarrow> Inl e | Inr x \<Rightarrow> f x)"

fun map_exn :: "('a \<Rightarrow> exn + 'b) \<Rightarrow> 'a list \<Rightarrow> exn + 'b list" where
  "map_exn f [] = Inr []"
| "map_exn f (x # xs) =
     and_then (f x) (\<lambda>y. and_then (map_exn f xs) (\<lambda>ys. Inr (y # ys)))"

text \<open>
  What \<^verbatim>\<open>await fetch(...)\<close> followed by \<^verbatim>\<open>await response.json()\<close> can give: the
  request is rejected (no connection), or a response arrives with its \<^verbatim>\<open>ok\<close> flag
  (true for a 2xx status) and a body that parses to a JSON value (\<open>Some\<close>) or does not
  (\<open>None\<close>: \<^verbatim>\<open>json()\<close> rejects).
\<close>

datatype fetch_result = Rejects | Responds bool "jsval option"

definition await_fetch :: "fetch_result \<Rightarrow> exn + bool \<times> jsval option" where
  "await_fetch r = (case r of Rejects \<Rightarrow> Inl NetworkError | Responds ok body \<Rightarrow> Inr (ok, body))"

definition await_json :: "jsval option \<Rightarrow> exn + jsval" where
  "await_json body = (case body of None \<Rightarrow> Inl SyntaxError | Some data \<Rightarrow> Inr data)"

section \<open>What a handler does\<close>

text \<open>
  A handler of a component is modelled by the sequence of things it does, in order: the
  state setters it calls, the requests it sends, the timers it starts and the callbacks of
  its parent it invokes. The outcome of a request the handler awaits is an argument.

  \<open>Invoke\<close> is a call of a poller that is not awaited, \<open>SetTimeout c d\<close> is
  \<^verbatim>\<open>setTimeout(() => c, d)\<close>. \<open>AddUploadedFiles\<close> appends an entry (id, count,
  timestamp, message) to \<^verbatim>\<open>uploadedFiles\<close>, and \<open>ClearFileInput\<close> empties the file input
  where it is mounted. A file is its name and its size in bytes.
\<close>

record js_file =
  name :: string
  fsize :: nat

datatype request =
    ConnectDatabase string bool
  | UploadDocuments "js_file list"
  | IngestionStatus jsval
  | Query string
  | QueryHistory
  | Metrics

datatype call = PollConnectionStatus jsval | PollUploadStatus jsval nat

datatype action =
    SetError jsval
  | SetIsConnecting bool
  | SetIsUploading bool
  | SetUploadProgress jsval
  | AddUploadedFiles jsval nat string jsval
  | ClearFileInput
  | SetIsLoading bool
  | SetQueryResults jsval
  | SetShowSuggestions bool
  | ConsoleError string
  | Fetch request
  | Invoke call
  | SetTimeout call nat
  | OnConnectionSuccess jsval
  | OnDocumentsUploaded nat
  | OnQuerySubmit string

text \<open>A \<^verbatim>\<open>try { ... } catch (error) { ... }\<close> block.\<close>

definition try_catch :: "exn + action list \<Rightarrow> action list \<Rightarrow> action list" where
  "try_catch body handler = (case body of Inl e \<Rightarrow> handler | Inr acts \<Rightarrow> acts)"

section \<open>DatabaseConnector\<close>

definition handleConnect_try :: "fetch_result \<Rightarrow> exn + action list" where
  "handleConnect_try r =
     and_then (await_fetch r) (\<lambda>(ok, body).
     and_then (await_json body) (\<lambda>data.
       if ok then
         and_then (get_prop data ''job_id'') (\<lambda>job_id.
           Inr [Invoke (PollConnectionStatus job_id)])
       else
         and_then (get_prop data ''detail'') (\<lambda>detail.
           Inr [SetError (js_or detail (JStr ''Connection failed'')), SetIsConnecting False])))"

definition handleConnect :: "string \<Rightarrow> fetch_result \<Rightarrow> action list" where
  "handleConnect connectionString r =
     (if trim connectionString = [] then [SetError (JStr ''Please enter a connection string'')]
      else [SetIsConnecting True, SetError (JStr []),
            Fetch (ConnectDatabase connectionString True)] @
           try_catch (handleConnect_try r)
             [SetError (JStr ''Network error: Could not connect to backend''),
              SetIsConnecting False])"

definition pollConnectionStatus_try :: "jsval \<Rightarrow> fetch_result \<Rightarrow> exn + action list" where
  "pollConnectionStatus_try jobId r =
     and_then (await_fetch r) (\<lambda>(ok, body).
     and_then (await_json body) (\<lambda>data.
       if ok then
         and_then (get_prop data ''status'') (\<lambda>status.
           if status = JStr ''completed'' then
             and_then (get_prop data ''schema'') (\<lambda>schema.
               Inr [SetIsConnecting False, OnConnectionSuccess schema])
           else if status = JStr ''failed'' then
             and_then (get_prop data ''message'') (\<lambda>message.
               Inr [SetError (js_or message (JStr ''Connection failed'')),
                    SetIsConnecting False])
           else Inr [SetTimeout (PollConnectionStatus jobId) 1000])
       else Inr [SetError (JStr ''Failed to check connection status''), SetIsConnecting False]))"

definition pollConnectionStatus :: "jsval \<Rightarrow> fetch_result \<Rightarrow> action list" where
  "pollConnectionStatus jobId r =
     Fetch (IngestionStatus jobId) #
     try_catch (pollConnectionStatus_try jobId r)
       [SetError (JStr ''Network error while checking status''), SetIsConnecting False]"

section \<open>DocumentUploader\<close>

text \<open>The \<^verbatim>\<open>ext\<close> fields of \<^verbatim>\<open>supportedTypes\<close>, the only ones the validation reads.\<close>

definition supportedTypes :: "string list" where
  "supportedTypes = [''.pdf'', ''.docx'', ''.txt'', ''.csv'', ''.json'']"

text \<open>\<^verbatim>\<open>'.' + file.name.split('.').pop().toLowerCase()\<close>\<close>

definition extension :: "js_file \<Rightarrow> string" where
  "extension f = ''.'' @ toLowerCase (last (js_split (CHR ''.'') (name f)))"

definition isSupported :: "js_file \<Rightarrow> bool" where
  "isSupported f = (extension f \<in> set supportedTypes)"

definition isValidSize :: "js_file \<Rightarrow> bool" where
  "isValidSize f = (fsize f \<le> 10 * 1024 * 1024)"

text \<open>
  The \<^verbatim>\<open>forEach\<close> of \<^verbatim>\<open>handleFiles\<close>: the files that pass, and the name and the
  issue of each file that does not, both in the order of the input.
\<close>

fun validate :: "js_file list \<Rightarrow> js_file list \<times> (string \<times> string) list" where
  "validate [] = ([], [])"
| "validate (f # fs) =
     (case validate fs of (validFiles, invalidFiles) \<Rightarrow>
        if isSupported f \<and> isValidSize f then (f # validFiles, invalidFiles)
        else (validFiles,
              (name f, if \<not> isSupported f then ''Unsupported file type''
                       else ''File too large (max 10MB)'') # invalidFiles))"

definition pollUploadStatus_try ::
  "jsval \<Rightarrow> nat \<Rightarrow> string \<Rightarrow> fetch_result \<Rightarrow> exn + action list" where
  "pollUploadStatus_try jobId totalFiles now r =
     and_then (await_fetch r) (\<lambda>(ok, body).
     and_then (await_json body) (\<lambda>data.
       if ok then
         and_then (get_prop data ''progress'') (\<lambda>progress.
         and_then (get_prop data ''status'') (\<lambda>status.
           if status = JStr ''completed'' then
             and_then (get_prop data ''message'') (\<lambda>message.
               Inr [SetUploadProgress (js_or progress (JNum 0)),
                    SetIsUploading False, SetUploadProgress (JNum 100),
                    AddUploadedFiles jobId totalFiles now message,
                    OnDocumentsUploaded totalFiles, ClearFileInput])
           else if status = JStr ''failed'' then
             and_then (get_prop data ''message'') (\<lambda>message.
               Inr [SetUploadProgress (js_or progress (JNum 0)),
                    SetError (js_or message (JStr ''Upload failed'')),
                    SetIsUploading False])
           else Inr [SetUploadProgress (js_or progress (JNum 0)),
                     SetTimeout (PollUploadStatus jobId totalFiles) 1000]))
       else Inr [SetError (JStr ''Failed to check upload status''), SetIsUploading False]))"

text \<open>
  \<open>now\<close> is what \<^verbatim>\<open>new Date().toLocaleTimeString()\<close> gives when the job completes.
\<close>

definition pollUploadStatus :: "jsval \<Rightarrow> nat \<Rightarrow> string \<Rightarrow> fetch_result \<Rightarrow> action list" where
  "pollUploadStatus jobId totalFiles now r =
     Fetch (IngestionStatus jobId) #
     try_catch (pollUploadStatus_try jobId totalFiles now r)
       [SetError (JStr ''Network error while checking status''), SetIsUploading False]"

definition uploadFiles_try :: "js_file list \<Rightarrow> fetch_result \<Rightarrow> exn + action list" where
  "uploadFiles_try files r =
     and_then (await_fetch r) (\<lambda>(ok, body).
     and_then (await_json body) (\<lambda>data.
       if ok then
         and_then (get_prop data ''job_id'') (\<lambda>job_id.
           Inr [Invoke (PollUploadStatus job_id (length files))])
       else
         and_then (get_prop data ''detail'') (\<lambda>detail.
           Inr [SetError (js_or detail (JStr ''Upload failed'')), SetIsUploading False])))"

definition uploadFiles :: "js_file list \<Rightarrow> fetch_result \<Rightarrow> action list" where
  "uploadFiles files r =
     [SetIsUploading True, SetUploadProgress (JNum 0), Fetch (UploadDocuments files)] @
     try_catch (uploadFiles_try files r)
       [SetError (JStr ''Network error: Could not upload files''), SetIsUploading False]"

definition invalid_message :: "(string \<times> string) list \<Rightarrow> string" where
  "invalid_message invalidFiles =
     ''Invalid files: '' @
     js_join '', '' (map (\<lambda>(n, issue). n @ '' ('' @ issue @ '')'') invalidFiles)"

definition handleFiles :: "js_file list \<Rightarrow> fetch_result \<Rightarrow> action list" where
  "handleFiles files r =
     (if files = [] then []
      else (case validate files of (validFiles, invalidFiles) \<Rightarrow>
        [SetError (if invalidFiles \<noteq> [] then JStr (invalid_message invalidFiles) else JStr [])] @
        (if validFiles \<noteq> [] then uploadFiles validFiles r else [])))"

section \<open>The polling loop\<close>

text \<open>
  The timers a handler started, and the event loop that runs them: each timer that fires
  sends one status request, and the list holds the outcomes of these requests in order.
  A run ends when no timer is left, or when the outcomes known so far are used up.
\<close>

fun scheduled :: "action list \<Rightarrow> call list" where
  "scheduled [] = []"
| "scheduled (SetTimeout c d # acts) = c # scheduled acts"
| "scheduled (a # acts) = scheduled acts"

fun exec :: "string \<Rightarrow> call \<Rightarrow> fetch_result \<Rightarrow> action list" where
  "exec now (PollConnectionStatus jobId) r = pollConnectionStatus jobId r"
| "exec now (PollUploadStatus jobId totalFiles) r = pollUploadStatus jobId totalFiles now r"

fun run :: "string \<Rightarrow> call \<Rightarrow> fetch_result list \<Rightarrow> action list" where
  "run now c [] = []"
| "run now c (r # rs) =
     (let acts = exec now c r
      in case scheduled acts of
           [] \<Rightarrow> acts
         | c' # cs \<Rightarrow> acts @ run now c' rs)"

section \<open>QueryPanel and App\<close>

definition handleSubmit :: "string \<Rightarrow> bool \<Rightarrow> action list" where
  "handleSubmit query isLoading =
     (if trim query \<noteq> [] \<and> \<not> isLoading
      then [OnQuerySubmit (trim query), SetShowSuggestions False, Fetch QueryHistory]
      else [])"

definition query_error :: "string \<Rightarrow> jsval" where
  "query_error msg =
     JObj [(''error'', JStr msg), (''results'', JArr []), (''query_type'', JStr ''error'')]"

definition handleQuerySubmit_try :: "fetch_result \<Rightarrow> exn + action list" where
  "handleQuerySubmit_try r =
     and_then (await_fetch r) (\<lambda>(ok, body).
       if ok then
         and_then (await_json body) (\<lambda>results.
           Inr [SetQueryResults results, Fetch Metrics])
       else Inr [ConsoleError ''Query failed'',
                 SetQueryResults (query_error ''Query processing failed'')])"

definition handleQuerySubmit :: "string \<Rightarrow> fetch_result \<Rightarrow> action list" where
  "handleQuerySubmit query r =
     [SetIsLoading True, Fetch (Query query)] @
     try_catch (handleQuerySubmit_try r)
       [ConsoleError ''Query error:'', SetQueryResults (query_error ''Network error occurred'')] @
     [SetIsLoading False]"

section \<open>ResultsView\<close>

text \<open>
  The text an element adds to \<^verbatim>\<open>xs.join(',')\<close>: nothing for \<^verbatim>\<open>null\<close> and
  \<^verbatim>\<open>undefined\<close>, its string conversion otherwise (an array converts to the join of
  its own elements). The text of a number is the one JavaScript prints for a safe
  integer; a statement about the text of a number asks for \<open>json_value\<close>.
\<close>

fun join_text :: "jsval \<Rightarrow> string" where
  "join_text JUndefined = []"
| "join_text JNull = []"
| "join_text (JBool b) = (if b then ''true'' else ''false'')"
| "join_text (JNum n) = show_int n"
| "join_text (JStr s) = s"
| "join_text (JArr xs) = js_join '','' (map join_text xs)"
| "join_text (JObj kvs) = ''[object Object]''"

text \<open>
  The callback of the inner \<^verbatim>\<open>headers.map\<close> of \<^verbatim>\<open>exportToCSV\<close>: a string with a
  comma is put between double quotes, any other value is passed on as it is.
\<close>

definition csv_value :: "jsval \<Rightarrow> jsval" where
  "csv_value v =
     (case v of
        JStr s \<Rightarrow> if js_includes s (CHR '','') then JStr ([CHR 0x22] @ s @ [CHR 0x22]) else v
      | _ \<Rightarrow> v)"

definition csv_row :: "string list \<Rightarrow> jsval \<Rightarrow> exn + string" where
  "csv_row headers row =
     and_then (map_exn (\<lambda>header. and_then (get_prop row header) (\<lambda>v. Inr (csv_value v))) headers)
       (\<lambda>cells. Inr (js_join '','' (map join_text cells)))"

text \<open>
  \<open>exportToCSV\<close> gives the text it hands to \<^verbatim>\<open>downloadFile\<close>, or \<open>None\<close> when it
  returns without a download.
\<close>

definition exportToCSV :: "jsval list \<Rightarrow> exn + string option" where
  "exportToCSV data =
     (case data of
        [] \<Rightarrow> Inr None
      | first # rest \<Rightarrow>
          and_then (object_keys first) (\<lambda>headers.
          and_then (map_exn (csv_row headers) data) (\<lambda>rows.
            Inr (Some (js_join [CHR 0x0A] (js_join '','' headers # rows))))))"

text \<open>
  An array method (\<^verbatim>\<open>filter\<close>, \<^verbatim>\<open>map\<close>) called on a value: only an array has it,
  on anything else the call throws.
\<close>

definition as_array :: "jsval \<Rightarrow> exn + jsval list" where
  "as_array v = (case v of JArr xs \<Rightarrow> Inr xs | _ \<Rightarrow> Inl TypeError)"

fun js_filter :: "(jsval \<Rightarrow> exn + bool) \<Rightarrow> jsval list \<Rightarrow> exn + jsval list" where
  "js_filter p [] = Inr []"
| "js_filter p (x # xs) =
     and_then (p x) (\<lambda>keep.
     and_then (js_filter p xs) (\<lambda>ys. Inr (if keep then x # ys else ys)))"

definition is_database :: "jsval \<Rightarrow> exn + bool" where
  "is_database item =
     and_then (get_prop item ''source'') (\<lambda>source.
       Inr (source = JStr ''database'' \<or> \<not> truthy source))"

definition is_document :: "jsval \<Rightarrow> exn + bool" where
  "is_document item =
     and_then (get_prop item ''source'') (\<lambda>source. Inr (source = JStr ''document''))"

text \<open>
  \<open>renderHybridResults\<close> gives \<^verbatim>\<open>databaseResults\<close> and \<^verbatim>\<open>documentResults\<close>; each is
  shown under its heading when it is not empty.
\<close>

definition renderHybridResults :: "jsval \<Rightarrow> exn + jsval list \<times> jsval list" where
  "renderHybridResults data =
     and_then (as_array data) (\<lambda>items.
     and_then (js_filter is_database items) (\<lambda>databaseResults.
     and_then (js_filter is_document items) (\<lambda>documentResults.
       Inr (databaseResults, documentResults))))"

text \<open>
  \<open>renderHelpMessage\<close> gives the message of the heading and, when
  \<^verbatim>\<open>data[0].suggestions\<close> is truthy, the list of suggestions.
\<close>

definition renderHelpMessage :: "jsval \<Rightarrow> exn + jsval \<times> jsval list option" where
  "renderHelpMessage data =
     and_then (get_prop data ''0'') (\<lambda>first.
     and_then (get_prop first ''message'') (\<lambda>message.
     and_then (get_prop first ''suggestions'') (\<lambda>suggestions.
       if truthy suggestions
       then and_then (as_array suggestions) (\<lambda>items. Inr (message, Some items))
       else Inr (message, None))))"

text \<open>
  Which of the four \<^verbatim>\<open>return\<close> statements of the component is taken. The fields the
  specification calls \<^verbatim>\<open>queryType\<close> and \<^verbatim>\<open>results\<close> are the properties
  \<^verbatim>\<open>query_type\<close> and \<^verbatim>\<open>results\<close> of the response.
\<close>

datatype screen = LoadingScreen | EmptyScreen | ErrorScreen jsval | ResultsScreen

definition ResultsView_screen :: "jsval \<Rightarrow> bool \<Rightarrow> exn + screen" where
  "ResultsView_screen results isLoading =
     (if isLoading then Inr LoadingScreen
      else if \<not> truthy results then Inr EmptyScreen
      else and_then (get_prop results ''error'') (\<lambda>err.
             if truthy err then Inr (ErrorScreen err) else Inr ResultsScreen))"

text \<open>
  The \<^verbatim>\<open>results-content\<close> block of the last \<^verbatim>\<open>return\<close>: four guarded renderers,
  evaluated in order. The views of \<^verbatim>\<open>renderDocumentResults\<close> and
  \<^verbatim>\<open>renderTableData\<close> are kept as the data they are given.
\<close>

record content =
  help_view :: "(jsval \<times> jsval list option) option"
  hybrid_view :: "(jsval list \<times> jsval list) option"
  document_view :: "jsval option"
  table_view :: "jsval option"

definition results_content :: "jsval \<Rightarrow> exn + content" where
  "results_content results =
     and_then (get_prop results ''query_type'') (\<lambda>query_type.
     and_then (get_prop results ''results'') (\<lambda>data.
     and_then (if query_type = JStr ''help''
               then and_then (renderHelpMessage data) (\<lambda>v. Inr (Some v))
               else Inr None) (\<lambda>h.
     and_then (if query_type = JStr ''hybrid''
               then and_then (renderHybridResults data) (\<lambda>v. Inr (Some v))
               else Inr None) (\<lambda>hy.
       Inr \<lparr>help_view = h, hybrid_view = hy,
            document_view = (if query_type = JStr ''document'' then Some data else None),
            table_view = (if query_type = JStr ''sql'' \<or> (\<not> truthy query_type \<and> truthy data)
                     then Some data else None)\<rparr>))))"

section \<open>Reading a trace\<close>

text \<open>The value of \<^verbatim>\<open>v.k\<close> where reading it does not throw.\<close>

definition read_prop :: "jsval \<Rightarrow> string \<Rightarrow> jsval" where
  "read_prop v k = (case get_prop v k of Inl e \<Rightarrow> JUndefined | Inr x \<Rightarrow> x)"

definition nullish :: "jsval \<Rightarrow> bool" where
  "nullish v = (v = JUndefined \<or> v = JNull)"

text \<open>The requests a trace sends, and the results it hands to \<^verbatim>\<open>setQueryResults\<close>.\<close>

fun requests :: "action list \<Rightarrow> request list" where
  "requests [] = []"
| "requests (Fetch q # acts) = q # requests acts"
| "requests (a # acts) = requests acts"

fun query_results_set :: "action list \<Rightarrow> jsval list" where
  "query_results_set [] = []"
| "query_results_set (SetQueryResults v # acts) = v # query_results_set acts"
| "query_results_set (a # acts) = query_results_set acts"

text \<open>
  The actions that end a job: the success callback of either component, and the error
  message (a poll sets the error only when the job has failed).
\<close>

fun is_terminal :: "action \<Rightarrow> bool" where
  "is_terminal (OnConnectionSuccess v) = True"
| "is_terminal (OnDocumentsUploaded n) = True"
| "is_terminal (SetError v) = True"
| "is_terminal a = False"

text \<open>
  The delays of the timers a trace starts, and the values it hands to
  \<^verbatim>\<open>setUploadProgress\<close>.
\<close>

fun delays :: "action list \<Rightarrow> nat list" where
  "delays [] = []"
| "delays (SetTimeout c d # acts) = d # delays acts"
| "delays (a # acts) = delays acts"

fun progress_updates :: "action list \<Rightarrow> jsval list" where
  "progress_updates [] = []"
| "progress_updates (SetUploadProgress v # acts) = v # progress_updates acts"
| "progress_updates (a # acts) = progress_updates acts"

text \<open>
  One step of a poll sends one request and then either starts one timer of one second
  for the same call, or ends the job with one terminal action.
\<close>

definition continues :: "call \<Rightarrow> action list \<Rightarrow> bool" where
  "continues c acts =
     (scheduled acts = [c] \<and> delays acts = [1000] \<and> filter is_terminal acts = []
      \<and> length (requests acts) = 1)"

definition ends :: "action list \<Rightarrow> bool" where
  "ends acts =
     (scheduled acts = [] \<and> delays acts = [] \<and> length (filter is_terminal acts) = 1
      \<and> length (requests acts) = 1)"

section \<open>The exporter in the words of the specification\<close>




section \<open>Basic facts\<close>

lemma and_then_Inl [simp]: "and_then (Inl e) f = Inl e"
  by (simp add: and_then_def)

lemma and_then_Inr [simp]: "and_then (Inr x) f = f x"
  by (simp add: and_then_def)

lemma try_catch_Inl [simp]: "try_catch (Inl e) handler = handler"
  by (simp add: try_catch_def)

lemma try_catch_Inr [simp]: "try_catch (Inr acts) handler = acts"
  by (simp add: try_catch_def)

lemma await_fetch_simps [simp]:
  "await_fetch Rejects = Inl NetworkError"
  "await_fetch (Responds ok body) = Inr (ok, body)"
  by (simp_all add: await_fetch_def)

lemma await_json_simps [simp]:
  "await_json None = Inl SyntaxError"
  "await_json (Some data) = Inr data"
  by (simp_all add: await_json_def)

lemma get_prop_read_prop: "\<not> nullish v \<Longrightarrow> get_prop v k = Inr (read_prop v k)"
  by (cases v) (simp_all add: read_prop_def nullish_def)

lemma get_prop_nullish: "nullish v \<Longrightarrow> get_prop v k = Inl TypeError"
  by (auto simp: nullish_def)

lemma get_prop_Inr_iff: "(\<exists>x. get_prop v k = Inr x) = (\<not> nullish v)"
  by (cases v) (simp_all add: nullish_def)

lemma dropWhile_all: "list_all P xs \<Longrightarrow> dropWhile P xs = []"
  by (induction xs) simp_all

lemma trim_spaces: "list_all is_space s \<Longrightarrow> trim s = []"
  by (simp add: trim_def dropWhile_all)

lemma trim_Nil_iff: "(trim s = []) = list_all is_space s"
proof
  assume "trim s = []"
  then have all: "\<forall>x \<in> set (dropWhile is_space s). is_space x"
    by (simp add: trim_def dropWhile_eq_Nil_conv)
  have "dropWhile is_space s = []"
  proof (rule ccontr)
    assume ne: "dropWhile is_space s \<noteq> []"
    then have "\<not> is_space (hd (dropWhile is_space s))"
      by (rule hd_dropWhile)
    moreover from ne have "hd (dropWhile is_space s) \<in> set (dropWhile is_space s)"
      by simp
    ultimately show False using all by blast
  qed
  then show "list_all is_space s"
    by (simp add: dropWhile_eq_Nil_conv list_all_iff)
qed (rule trim_spaces)

section \<open>Polling steps\<close>

lemma pollConnectionStatus_Rejects:
  "pollConnectionStatus j Rejects =
     [Fetch (IngestionStatus j), SetError (JStr ''Network error while checking status''),
      SetIsConnecting False]"
  by (simp add: pollConnectionStatus_def pollConnectionStatus_try_def)

lemma pollConnectionStatus_not_ok:
  "pollConnectionStatus j (Responds False body) =
     [Fetch (IngestionStatus j),
      SetError (JStr (if body = None then ''Network error while checking status''
                      else ''Failed to check connection status'')),
      SetIsConnecting False]"
  by (cases body) (simp_all add: pollConnectionStatus_def pollConnectionStatus_try_def)

lemma pollUploadStatus_Rejects:
  "pollUploadStatus j n now Rejects =
     [Fetch (IngestionStatus j), SetError (JStr ''Network error while checking status''),
      SetIsUploading False]"
  by (simp add: pollUploadStatus_def pollUploadStatus_try_def)

lemma pollUploadStatus_not_ok:
  "pollUploadStatus j n now (Responds False body) =
     [Fetch (IngestionStatus j),
      SetError (JStr (if body = None then ''Network error while checking status''
                      else ''Failed to check upload status'')),
      SetIsUploading False]"
  by (cases body) (simp_all add: pollUploadStatus_def pollUploadStatus_try_def)

text \<open>
  Claim C4. A transport error on a status request ends the job: when the request is
  rejected, or the response is not a 2xx one (whatever its body), the poller sets a fixed
  could-not-check-status message, leaves the busy state, and starts no timer. The run is
  over with that one request: whatever outcomes \<open>rs\<close> later requests would have had, none
  of them is sent, so the poll is not retried. This holds for the database connection
  and for the document upload.
\<close>

theorem poll_transport_error_is_terminal:
  "run now (PollConnectionStatus j) (Rejects # rs) =
     [Fetch (IngestionStatus j), SetError (JStr ''Network error while checking status''),
      SetIsConnecting False]
   \<and> run now (PollConnectionStatus j) (Responds False body # rs) =
     [Fetch (IngestionStatus j),
      SetError (JStr (if body = None then ''Network error while checking status''
                      else ''Failed to check connection status'')),
      SetIsConnecting False]
   \<and> run now (PollUploadStatus j n) (Rejects # rs) =
     [Fetch (IngestionStatus j), SetError (JStr ''Network error while checking status''),
      SetIsUploading False]
   \<and> run now (PollUploadStatus j n) (Responds False body # rs) =
     [Fetch (IngestionStatus j),
      SetError (JStr (if body = None then ''Network error while checking status''
                      else ''Failed to check upload status'')),
      SetIsUploading False]"
  by (simp add: pollConnectionStatus_Rejects pollConnectionStatus_not_ok
        pollUploadStatus_Rejects pollUploadStatus_not_ok)

theorem poll_transport_error_is_terminal_witness:
  "run ''10:15:00'' (PollConnectionStatus (JStr ''job-1''))
      [Rejects, Responds True (Some (JObj [(''status'', JStr ''completed'')]))] =
     [Fetch (IngestionStatus (JStr ''job-1'')),
      SetError (JStr ''Network error while checking status''), SetIsConnecting False]
   \<and> run ''10:15:00'' (PollUploadStatus (JStr ''job-1'') 3)
      [Responds False (Some (JObj [(''detail'', JStr ''Not Found'')])),
       Responds True (Some (JObj [(''status'', JStr ''completed'')]))] =
     [Fetch (IngestionStatus (JStr ''job-1'')),
      SetError (JStr ''Failed to check upload status''), SetIsUploading False]"
  using poll_transport_error_is_terminal
    [where now = "''10:15:00''" and j = "JStr ''job-1''" and n = 3
       and rs = "[Responds True (Some (JObj [(''status'', JStr ''completed'')]))]"
       and body = "Some (JObj [(''detail'', JStr ''Not Found'')])"]
  by simp

section \<open>Validation\<close>

lemma handleConnect_blank:
  "list_all is_space s \<Longrightarrow>
   handleConnect s r = [SetError (JStr ''Please enter a connection string'')]"
  by (simp add: handleConnect_def trim_spaces)

lemma handleSubmit_blank: "list_all is_space s \<Longrightarrow> handleSubmit s isLoading = []"
  by (simp add: handleSubmit_def trim_spaces)

lemma handleSubmit_in_flight: "handleSubmit q True = []"
  by (simp add: handleSubmit_def)

text \<open>
  Claim C8. An input \<open>s\<close> that is empty or holds white space only is rejected before any
  request: \<open>handleConnect\<close> only sets the message asking for a connection string and
  sends nothing, and \<open>handleSubmit\<close> does nothing at all (no request, and the submit
  callback of the parent, which would send the query, is not invoked). \<open>handleSubmit\<close>
  also does nothing for any query \<open>q\<close> while a submission is in flight.
\<close>

theorem empty_input_is_rejected:
  assumes "list_all is_space s"
  shows "handleConnect s r = [SetError (JStr ''Please enter a connection string'')]
    \<and> requests (handleConnect s r) = []
    \<and> handleSubmit s isLoading = []
    \<and> handleSubmit q True = []"
  using assms by (simp add: handleConnect_blank handleSubmit_blank handleSubmit_in_flight)

theorem empty_input_is_rejected_witness:
  "list_all is_space [CHR '' '', CHR 0x09, CHR '' '']
   \<and> handleConnect [CHR '' '', CHR 0x09, CHR '' ''] Rejects =
       [SetError (JStr ''Please enter a connection string'')]
   \<and> requests (handleConnect [CHR '' '', CHR 0x09, CHR '' ''] Rejects) = []
   \<and> handleSubmit [CHR '' '', CHR 0x09, CHR '' ''] False = []
   \<and> handleSubmit ''How many employees do we have?'' True = []"
proof -
  have blank: "list_all is_space [CHR '' '', CHR 0x09, CHR '' '']"
    by (simp add: is_space_def)
  show ?thesis
    using blank
      empty_input_is_rejected [OF blank, of Rejects False "''How many employees do we have?''"]
    by simp
qed

text \<open>An input with a visible character is sent.\<close>

lemma handleConnect_sends:
  "\<not> list_all is_space s \<Longrightarrow>
   take 3 (handleConnect s r) =
     [SetIsConnecting True, SetError (JStr []), Fetch (ConnectDatabase s True)]"
  by (simp add: handleConnect_def trim_Nil_iff)

lemma handleSubmit_sends:
  "\<not> list_all is_space q \<Longrightarrow>
   handleSubmit q False = [OnQuerySubmit (trim q), SetShowSuggestions False, Fetch QueryHistory]"
  by (simp add: handleSubmit_def trim_Nil_iff)

section \<open>Query submission\<close>

lemma handleQuerySubmit_Rejects:
  "handleQuerySubmit q Rejects =
     [SetIsLoading True, Fetch (Query q), ConsoleError ''Query error:'',
      SetQueryResults (query_error ''Network error occurred''), SetIsLoading False]"
  by (simp add: handleQuerySubmit_def handleQuerySubmit_try_def)

lemma handleQuerySubmit_not_ok:
  "handleQuerySubmit q (Responds False body) =
     [SetIsLoading True, Fetch (Query q), ConsoleError ''Query failed'',
      SetQueryResults (query_error ''Query processing failed''), SetIsLoading False]"
  by (simp add: handleQuerySubmit_def handleQuerySubmit_try_def)

lemma handleQuerySubmit_ok:
  "handleQuerySubmit q (Responds True body) =
     (case body of
        None \<Rightarrow> [SetIsLoading True, Fetch (Query q), ConsoleError ''Query error:'',
                 SetQueryResults (query_error ''Network error occurred''), SetIsLoading False]
      | Some results \<Rightarrow> [SetIsLoading True, Fetch (Query q), SetQueryResults results,
                        Fetch Metrics, SetIsLoading False])"
  by (simp add: handleQuerySubmit_def handleQuerySubmit_try_def split: option.split)

lemma handleQuerySubmit_one_result:
  "length (query_results_set (handleQuerySubmit q r)) = 1"
proof (cases r)
  case Rejects
  then show ?thesis by (simp add: handleQuerySubmit_Rejects)
next
  case (Responds ok body)
  then show ?thesis
    by (cases ok; cases body) (simp_all add: handleQuerySubmit_not_ok handleQuerySubmit_ok)
qed

text \<open>
  Claim C3. When the network call of a query submission is rejected, the handler catches
  the failure and hands the results view the value with \<^verbatim>\<open>error\<close> "Network error
  occurred", an empty \<^verbatim>\<open>results\<close> list and \<^verbatim>\<open>query_type\<close> "error". For a response
  that is not a 2xx one, whatever its body, it hands over an error-typed value with
  empty results as well. For every outcome \<open>r\<close> of the call the handler sets exactly one
  result and ends by leaving the loading state: no exception leaves it.
\<close>

theorem query_failure_is_a_value:
  "handleQuerySubmit q Rejects =
     [SetIsLoading True, Fetch (Query q), ConsoleError ''Query error:'',
      SetQueryResults
        (JObj [(''error'', JStr ''Network error occurred''), (''results'', JArr []),
               (''query_type'', JStr ''error'')]),
      SetIsLoading False]
   \<and> query_results_set (handleQuerySubmit q (Responds False body)) =
       [JObj [(''error'', JStr ''Query processing failed''), (''results'', JArr []),
              (''query_type'', JStr ''error'')]]
   \<and> length (query_results_set (handleQuerySubmit q r)) = 1
   \<and> last (handleQuerySubmit q r) = SetIsLoading False"
proof (intro conjI)
  show "length (query_results_set (handleQuerySubmit q r)) = 1"
    by (rule handleQuerySubmit_one_result)
  show "last (handleQuerySubmit q r) = SetIsLoading False"
    by (simp add: handleQuerySubmit_def)
qed (simp_all add: handleQuerySubmit_Rejects handleQuerySubmit_not_ok query_error_def)

theorem query_failure_is_a_value_witness:
  "query_results_set (handleQuerySubmit ''How many employees do we have?'' Rejects) =
     [JObj [(''error'', JStr ''Network error occurred''), (''results'', JArr []),
            (''query_type'', JStr ''error'')]]
   \<and> query_results_set (handleQuerySubmit ''How many employees do we have?''
        (Responds False (Some (JObj [(''detail'', JStr ''Internal Server Error'')])))) =
     [JObj [(''error'', JStr ''Query processing failed''), (''results'', JArr []),
            (''query_type'', JStr ''error'')]]
   \<and> length (query_results_set (handleQuerySubmit ''How many employees do we have?''
        (Responds True None))) = 1"
  using query_failure_is_a_value
    [where q = "''How many employees do we have?''"
       and body = "Some (JObj [(''detail'', JStr ''Internal Server Error'')])"
       and r = "Responds True None"]
  by simp

section \<open>Error messages of non-2xx responses\<close>

lemma handleConnect_not_ok:
  assumes "trim cs \<noteq> []" and "get_prop data ''detail'' = Inr detail"
  shows "handleConnect cs (Responds False (Some data)) =
     [SetIsConnecting True, SetError (JStr []), Fetch (ConnectDatabase cs True),
      SetError (if truthy detail then detail else JStr ''Connection failed''),
      SetIsConnecting False]"
  using assms by (simp add: handleConnect_def handleConnect_try_def js_or_def)

lemma uploadFiles_not_ok:
  assumes "get_prop data ''detail'' = Inr detail"
  shows "uploadFiles files (Responds False (Some data)) =
     [SetIsUploading True, SetUploadProgress (JNum 0), Fetch (UploadDocuments files),
      SetError (if truthy detail then detail else JStr ''Upload failed''),
      SetIsUploading False]"
  using assms by (simp add: uploadFiles_def uploadFiles_try_def js_or_def)

text \<open>
  Claim C7 as stated fails for the query submission: the service answers a query with a
  non-2xx response whose body carries a \<^verbatim>\<open>detail\<close>, and the handler shows its own fixed
  message, not the detail.
\<close>

theorem query_detail_is_not_surfaced:
  "query_results_set
     (handleQuerySubmit ''Show me all employees in Engineering''
        (Responds False (Some (JObj [(''detail'', JStr ''No database connected'')])))) =
   [JObj [(''error'', JStr ''Query processing failed''), (''results'', JArr []),
          (''query_type'', JStr ''error'')]]"
  by (simp add: handleQuerySubmit_not_ok query_error_def)

text \<open>
  Claim C7, amended. For a non-2xx response whose body \<open>data\<close> is a JSON value with
  readable properties, the database connection and the document upload show the body's
  \<^verbatim>\<open>detail\<close> when it is truthy and their fixed fallback ("Connection failed", "Upload
  failed") otherwise. The query submission does not read the body: it always shows
  "Query processing failed".
\<close>

theorem detail_is_surfaced_by_connect_and_upload:
  assumes "trim cs \<noteq> []" and "get_prop data ''detail'' = Inr detail"
  shows "handleConnect cs (Responds False (Some data)) =
       [SetIsConnecting True, SetError (JStr []), Fetch (ConnectDatabase cs True),
        SetError (if truthy detail then detail else JStr ''Connection failed''),
        SetIsConnecting False]
   \<and> uploadFiles files (Responds False (Some data)) =
       [SetIsUploading True, SetUploadProgress (JNum 0), Fetch (UploadDocuments files),
        SetError (if truthy detail then detail else JStr ''Upload failed''),
        SetIsUploading False]
   \<and> query_results_set (handleQuerySubmit q (Responds False (Some data))) =
       [JObj [(''error'', JStr ''Query processing failed''), (''results'', JArr []),
              (''query_type'', JStr ''error'')]]"
  using assms
  by (simp add: handleConnect_not_ok uploadFiles_not_ok handleQuerySubmit_not_ok query_error_def)

theorem detail_is_surfaced_by_connect_and_upload_witness:
  "trim ''demo://employee-database'' \<noteq> []
   \<and> get_prop (JObj [(''detail'', JStr ''Unknown scheme'')]) ''detail'' = Inr (JStr ''Unknown scheme'')
   \<and> handleConnect ''demo://employee-database''
        (Responds False (Some (JObj [(''detail'', JStr ''Unknown scheme'')]))) =
       [SetIsConnecting True, SetError (JStr []),
        Fetch (ConnectDatabase ''demo://employee-database'' True),
        SetError (JStr ''Unknown scheme''), SetIsConnecting False]
   \<and> uploadFiles [\<lparr>name = ''cv.pdf'', fsize = 2048\<rparr>]
        (Responds False (Some (JObj [(''detail'', JStr ''Unknown scheme'')]))) =
       [SetIsUploading True, SetUploadProgress (JNum 0),
        Fetch (UploadDocuments [\<lparr>name = ''cv.pdf'', fsize = 2048\<rparr>]),
        SetError (JStr ''Unknown scheme''), SetIsUploading False]"
proof -
  have t: "trim ''demo://employee-database'' \<noteq> []"
    by (simp add: trim_def is_space_def)
  have d: "get_prop (JObj [(''detail'', JStr ''Unknown scheme'')]) ''detail'' =
      Inr (JStr ''Unknown scheme'')"
    by simp
  show ?thesis
    using t d
      detail_is_surfaced_by_connect_and_upload
        [OF t d, of "[\<lparr>name = ''cv.pdf'', fsize = 2048\<rparr>]" "''q''"]
    by simp
qed

section \<open>File validation\<close>

lemma js_split_not_Nil [simp]: "js_split c s \<noteq> []"
  by (induction s) (auto split: list.splits)

lemma js_split_no_separator: "c \<notin> set s \<Longrightarrow> js_split c s = [s]"
  by (induction s) auto


lemma js_split_length: "Suc 0 \<le> length (js_split c s)"
  by (cases "js_split c s") simp_all

lemma js_split_two_pieces: "2 \<le> length (js_split c (a @ c # b))"
  using js_split_length [of c b] by (induction a) (auto split: list.splits)

lemma last_js_split: "c \<notin> set b \<Longrightarrow> last (js_split c (a @ c # b)) = b"
proof (induction a)
  case Nil
  then show ?case by (simp add: js_split_no_separator)
next
  case (Cons x a)
  obtain w ws where split: "js_split c (a @ c # b) = w # ws"
    by (cases "js_split c (a @ c # b)") simp_all
  have "ws \<noteq> []"
  proof
    assume "ws = []"
    with split have "js_split c (a @ c # b) = [w]" by simp
    moreover have "2 \<le> length (js_split c (a @ c # b))"
      by (rule js_split_two_pieces)
    ultimately show False by simp
  qed
  with Cons split show ?case by auto
qed

lemma extension_no_dot:
  "CHR ''.'' \<notin> set (name f) \<Longrightarrow> extension f = ''.'' @ toLowerCase (name f)"
  by (simp add: extension_def js_split_no_separator)

lemma extension_last_dot:
  "CHR ''.'' \<notin> set ext \<Longrightarrow> name f = stem @ ''.'' @ ext \<Longrightarrow>
   extension f = ''.'' @ toLowerCase ext"
  by (simp add: extension_def last_js_split)

text \<open>
  The files that pass are those with a computed extension of the list and a size within
  the limit, every other file is named in the error list, and one request with the files
  that pass is sent when there is any.
\<close>

lemma validate_fst: "fst (validate files) = filter (\<lambda>f. isSupported f \<and> isValidSize f) files"
  by (induction files) (auto split: prod.splits)

lemma validate_snd:
  "map fst (snd (validate files)) =
   map name (filter (\<lambda>f. \<not> (isSupported f \<and> isValidSize f)) files)"
  by (induction files) (auto split: prod.splits)

lemma uploadFiles_requests: "requests (uploadFiles files r) = [UploadDocuments files]"
proof (cases r)
  case Rejects
  then show ?thesis by (simp add: uploadFiles_def uploadFiles_try_def)
next
  case (Responds ok body)
  show ?thesis
  proof (cases body)
    case None
    with Responds show ?thesis by (simp add: uploadFiles_def uploadFiles_try_def)
  next
    case (Some data)
    show ?thesis
    proof (cases "nullish data")
      case True
      with Responds Some show ?thesis
        by (simp add: uploadFiles_def uploadFiles_try_def get_prop_nullish)
    next
      case False
      with Responds Some show ?thesis
        by (simp add: uploadFiles_def uploadFiles_try_def get_prop_read_prop)
    qed
  qed
qed

lemma handleFiles_requests:
  "requests (handleFiles files r) =
     (if filter (\<lambda>f. isSupported f \<and> isValidSize f) files = [] then []
      else [UploadDocuments (filter (\<lambda>f. isSupported f \<and> isValidSize f) files)])"
proof -
  obtain v i where vi: "validate files = (v, i)" by (cases "validate files")
  then have "v = filter (\<lambda>f. isSupported f \<and> isValidSize f) files"
    using validate_fst [of files] by simp
  with vi show ?thesis
    by (auto simp: handleFiles_def uploadFiles_requests)
qed

text \<open>
  Claim C2 says that the upload request holds only files whose name has an extension of
  the allow-list and whose size is at most 10 MiB. The code breaks this at a file whose
  name has no dot. The name "pdf" has no extension, but \<^verbatim>\<open>split('.').pop()\<close> gives the
  whole name, so the computed extension is ".pdf": the file passes validation and is
  part of the upload request, for every outcome \<open>r\<close> of that request.
\<close>

theorem dotless_name_is_uploaded:
  "CHR ''.'' \<notin> set (name \<lparr>name = ''pdf'', fsize = 100\<rparr>)
   \<and> requests (handleFiles [\<lparr>name = ''pdf'', fsize = 100\<rparr>] r) =
       [UploadDocuments [\<lparr>name = ''pdf'', fsize = 100\<rparr>]]"
  by (simp add: handleFiles_requests isSupported_def isValidSize_def extension_def
        supportedTypes_def toLowerCase_def lower_char_def)

section \<open>Hybrid results\<close>

lemma js_filter_total:
  "(\<And>x. x \<in> set xs \<Longrightarrow> p x = Inr (q x)) \<Longrightarrow> js_filter p xs = Inr (filter q xs)"
  by (induction xs) simp_all

lemma js_filter_fault:
  "x \<in> set xs \<Longrightarrow> (\<And>y. nullish y \<Longrightarrow> p y = Inl TypeError) \<Longrightarrow>
   (\<And>y. \<not> nullish y \<Longrightarrow> \<exists>b. p y = Inr b) \<Longrightarrow> nullish x \<Longrightarrow>
   js_filter p xs = Inl TypeError"
proof (induction xs)
  case Nil
  then show ?case by simp
next
  case (Cons y ys)
  show ?case
  proof (cases "nullish y")
    case True
    with Cons.prems(2) show ?thesis by simp
  next
    case False
    with Cons.prems(3) obtain b where b: "p y = Inr b" by blast
    from False Cons.prems(1,4) have "x \<in> set ys" by auto
    then have "js_filter p ys = Inl TypeError"
      using Cons.IH Cons.prems(2,3,4) by blast
    with b show ?thesis by simp
  qed
qed

lemma is_database_read:
  "\<not> nullish item \<Longrightarrow>
   is_database item =
     Inr (read_prop item ''source'' = JStr ''database'' \<or> \<not> truthy (read_prop item ''source''))"
  by (simp add: is_database_def get_prop_read_prop)

lemma is_document_read:
  "\<not> nullish item \<Longrightarrow> is_document item = Inr (read_prop item ''source'' = JStr ''document'')"
  by (simp add: is_document_def get_prop_read_prop)

lemma renderHybridResults_buckets:
  assumes "list_all (\<lambda>item. \<not> nullish item) items"
  shows "renderHybridResults (JArr items) =
     Inr (filter (\<lambda>item. read_prop item ''source'' = JStr ''database''
                          \<or> \<not> truthy (read_prop item ''source'')) items,
          filter (\<lambda>item. read_prop item ''source'' = JStr ''document'') items)"
proof -
  from assms have ok: "\<And>x. x \<in> set items \<Longrightarrow> \<not> nullish x"
    by (simp add: list_all_iff)
  have db: "js_filter is_database items =
      Inr (filter (\<lambda>item. read_prop item ''source'' = JStr ''database''
                           \<or> \<not> truthy (read_prop item ''source'')) items)"
    by (rule js_filter_total) (simp add: ok is_database_read)
  have doc: "js_filter is_document items =
      Inr (filter (\<lambda>item. read_prop item ''source'' = JStr ''document'') items)"
    by (rule js_filter_total) (simp add: ok is_document_read)
  show ?thesis
    by (simp add: renderHybridResults_def as_array_def db doc)
qed

lemma renderHybridResults_null_item:
  assumes "x \<in> set items" and "nullish x"
  shows "renderHybridResults (JArr items) = Inl TypeError"
proof -
  have "js_filter is_database items = Inl TypeError"
  proof (rule js_filter_fault [OF assms(1) _ _ assms(2)])
    fix y :: jsval
    assume "nullish y"
    then show "is_database y = Inl TypeError"
      by (simp add: is_database_def get_prop_nullish)
  next
    fix y :: jsval
    assume "\<not> nullish y"
    then show "\<exists>b. is_database y = Inr b"
      by (simp add: is_database_read)
  qed
  then show ?thesis
    by (simp add: renderHybridResults_def as_array_def)
qed

lemma disjoint_filters_length:
  assumes "\<And>x. \<not> (P x \<and> Q x)"
  shows "length (filter P xs) + length (filter Q xs) \<le> length xs"
  using assms by (induction xs) auto

lemma disjoint_filters_drop:
  assumes "\<And>x. \<not> (P x \<and> Q x)" and "x \<in> set xs" and "\<not> P x" and "\<not> Q x"
  shows "length (filter P xs) + length (filter Q xs) < length xs"
  using assms(2)
proof (induction xs)
  case Nil
  then show ?case by simp
next
  case (Cons y ys)
  have le: "length (filter P ys) + length (filter Q ys) \<le> length ys"
    using assms(1) by (rule disjoint_filters_length)
  show ?case
  proof (cases "x = y")
    case True
    with assms(3,4) le show ?thesis by simp
  next
    case False
    with Cons have "length (filter P ys) + length (filter Q ys) < length ys" by simp
    with assms(1) [of y] show ?thesis by auto
  qed
qed

text \<open>
  Claim C5 as stated fails for an item whose \<^verbatim>\<open>source\<close> is the empty string: the field
  is there and is not "database", and the item is put in the database bucket.
\<close>

theorem empty_source_goes_to_database_bucket:
  "read_prop (JObj [(''name'', JStr ''Ada''), (''source'', JStr [])]) ''source'' \<noteq> JStr ''database''
   \<and> read_prop (JObj [(''name'', JStr ''Ada''), (''source'', JStr [])]) ''source'' \<noteq> JUndefined
   \<and> renderHybridResults (JArr [JObj [(''name'', JStr ''Ada''), (''source'', JStr [])]]) =
       Inr ([JObj [(''name'', JStr ''Ada''), (''source'', JStr [])]], [])"
  by (simp add: renderHybridResults_buckets nullish_def read_prop_def)

text \<open>
  Claim C5, amended. For a hybrid result list without \<^verbatim>\<open>null\<close> items, the
  classification gives two buckets: the database bucket holds exactly the items whose
  \<^verbatim>\<open>source\<close> is "database" or is falsy (missing, \<^verbatim>\<open>null\<close>, the empty string, 0 or
  \<^verbatim>\<open>false\<close>), the document bucket exactly the items whose \<^verbatim>\<open>source\<close> is "document".
  Each bucket keeps the items in the order of the input list (it is a subsequence of
  it), and no item is in both.
\<close>

theorem hybrid_partition:
  assumes "list_all (\<lambda>item. \<not> nullish item) items"
  shows "\<exists>db doc. renderHybridResults (JArr items) = Inr (db, doc)
    \<and> db = filter (\<lambda>item. read_prop item ''source'' = JStr ''database''
                           \<or> \<not> truthy (read_prop item ''source'')) items
    \<and> doc = filter (\<lambda>item. read_prop item ''source'' = JStr ''document'') items
    \<and> subseq db items \<and> subseq doc items \<and> set db \<inter> set doc = {}"
  using assms by (auto simp: renderHybridResults_buckets)

theorem hybrid_partition_witness:
  "list_all (\<lambda>item. \<not> nullish item)
     [JObj [(''source'', JStr ''document''), (''filename'', JStr ''cv.pdf'')],
      JObj [(''name'', JStr ''Ada'')],
      JObj [(''source'', JStr ''database''), (''name'', JStr ''Bob'')]]
   \<and> renderHybridResults
       (JArr [JObj [(''source'', JStr ''document''), (''filename'', JStr ''cv.pdf'')],
              JObj [(''name'', JStr ''Ada'')],
              JObj [(''source'', JStr ''database''), (''name'', JStr ''Bob'')]]) =
     Inr ([JObj [(''name'', JStr ''Ada'')],
           JObj [(''source'', JStr ''database''), (''name'', JStr ''Bob'')]],
          [JObj [(''source'', JStr ''document''), (''filename'', JStr ''cv.pdf'')]])"
proof -
  have ok: "list_all (\<lambda>item. \<not> nullish item)
     [JObj [(''source'', JStr ''document''), (''filename'', JStr ''cv.pdf'')],
      JObj [(''name'', JStr ''Ada'')],
      JObj [(''source'', JStr ''database''), (''name'', JStr ''Bob'')]]"
    by (simp add: nullish_def)
  show ?thesis
    using ok hybrid_partition [OF ok] by (simp add: read_prop_def)
qed

text \<open>
  Claim C10 as stated fails for items whose \<^verbatim>\<open>source\<close> is there with a falsy value
  (\<^verbatim>\<open>null\<close>, 0): the value is neither "database" nor "document", and the items are put
  in the database bucket, not dropped.
\<close>

theorem falsy_source_is_not_dropped:
  "map_of [(''title'', JStr ''Q3 report''), (''source'', JNull)] ''source'' = Some JNull
   \<and> map_of [(''source'', JNum 0)] ''source'' = Some (JNum 0)
   \<and> renderHybridResults
       (JArr [JObj [(''title'', JStr ''Q3 report''), (''source'', JNull)],
              JObj [(''source'', JNum 0)]]) =
     Inr ([JObj [(''title'', JStr ''Q3 report''), (''source'', JNull)],
           JObj [(''source'', JNum 0)]], [])"
  by (simp add: renderHybridResults_buckets nullish_def read_prop_def)

text \<open>
  Claim C10, amended. In a hybrid result list without \<^verbatim>\<open>null\<close> items, every item whose
  \<^verbatim>\<open>source\<close> is truthy and is neither "database" nor "document" is in neither bucket,
  and then the two buckets together hold fewer items than the input list.
\<close>

theorem other_sources_are_dropped:
  assumes "list_all (\<lambda>item. \<not> nullish item) items"
    and "item \<in> set items"
    and "truthy (read_prop item ''source'')"
    and "read_prop item ''source'' \<noteq> JStr ''database''"
    and "read_prop item ''source'' \<noteq> JStr ''document''"
  shows "\<exists>db doc. renderHybridResults (JArr items) = Inr (db, doc)
    \<and> item \<notin> set db \<and> item \<notin> set doc \<and> length db + length doc < length items"
proof -
  let ?P = "\<lambda>item. read_prop item ''source'' = JStr ''database''
                     \<or> \<not> truthy (read_prop item ''source'')"
  let ?Q = "\<lambda>item. read_prop item ''source'' = JStr ''document''"
  have dis: "\<And>x. \<not> (?P x \<and> ?Q x)" by auto
  have "length (filter ?P items) + length (filter ?Q items) < length items"
    using dis assms(2) by (rule disjoint_filters_drop) (simp_all add: assms)
  moreover have "item \<notin> set (filter ?P items)" "item \<notin> set (filter ?Q items)"
    using assms by simp_all
  ultimately show ?thesis
    using renderHybridResults_buckets [OF assms(1)] by blast
qed

theorem other_sources_are_dropped_witness:
  "list_all (\<lambda>item. \<not> nullish item)
     [JObj [(''source'', JStr ''web''), (''url'', JStr ''example.org'')],
      JObj [(''source'', JStr ''database''), (''name'', JStr ''Bob'')]]
   \<and> truthy (read_prop (JObj [(''source'', JStr ''web''), (''url'', JStr ''example.org'')])
        ''source'')
   \<and> (\<exists>db doc.
        renderHybridResults
          (JArr [JObj [(''source'', JStr ''web''), (''url'', JStr ''example.org'')],
                 JObj [(''source'', JStr ''database''), (''name'', JStr ''Bob'')]]) =
        Inr (db, doc)
        \<and> JObj [(''source'', JStr ''web''), (''url'', JStr ''example.org'')] \<notin> set db
        \<and> JObj [(''source'', JStr ''web''), (''url'', JStr ''example.org'')] \<notin> set doc
        \<and> length db + length doc < 2)"
proof -
  let ?web = "JObj [(''source'', JStr ''web''), (''url'', JStr ''example.org'')]"
  let ?bob = "JObj [(''source'', JStr ''database''), (''name'', JStr ''Bob'')]"
  have ok: "list_all (\<lambda>item. \<not> nullish item) [?web, ?bob]"
    by (simp add: nullish_def)
  have mem: "?web \<in> set [?web, ?bob]" by simp
  have t: "truthy (read_prop ?web ''source'')" by (simp add: read_prop_def)
  have n1: "read_prop ?web ''source'' \<noteq> JStr ''database''" by (simp add: read_prop_def)
  have n2: "read_prop ?web ''source'' \<noteq> JStr ''document''" by (simp add: read_prop_def)
  show ?thesis
    using ok t other_sources_are_dropped [OF ok mem t n1 n2]
    by (simp add: numeral_2_eq_2)
qed

section \<open>Help results\<close>

lemma show_nat_0: "show_nat 0 = ''0''"
  by code_simp

lemma index_of_key_0: "index_of_key ''0'' n = (if n = 0 then None else Some 0)"
  by (cases n) (simp_all add: index_of_key_def upt_conv_Cons show_nat_0 del: upt_Suc)

lemma renderHelpMessage_empty: "renderHelpMessage (JArr []) = Inl TypeError"
  by (simp add: renderHelpMessage_def index_of_key_0)

lemma renderHelpMessage_null_first:
  "nullish first \<Longrightarrow> renderHelpMessage (JArr (first # rest)) = Inl TypeError"
  by (simp add: renderHelpMessage_def index_of_key_0 get_prop_nullish)

lemma renderHelpMessage_first:
  assumes "\<not> nullish first"
  shows "renderHelpMessage (JArr (first # rest)) =
     (if truthy (read_prop first ''suggestions'')
      then (case read_prop first ''suggestions'' of
              JArr xs \<Rightarrow> Inr (read_prop first ''message'', Some xs)
            | _ \<Rightarrow> Inl TypeError)
      else Inr (read_prop first ''message'', None))"
  using assms
  by (simp add: renderHelpMessage_def index_of_key_0 get_prop_read_prop as_array_def
      split: jsval.split)

lemma results_content_help:
  assumes "get_prop results ''query_type'' = Inr (JStr ''help'')"
  shows "results_content results =
     (case renderHelpMessage (read_prop results ''results'') of
        Inl e \<Rightarrow> Inl e
      | Inr v \<Rightarrow> Inr \<lparr>help_view = Some v, hybrid_view = None, document_view = None,
                       table_view = None\<rparr>)"
proof -
  from assms have "\<not> nullish results"
    using get_prop_Inr_iff [of results "''query_type''"] by simp
  then have "get_prop results ''results'' = Inr (read_prop results ''results'')"
    by (rule get_prop_read_prop)
  with assms show ?thesis
    by (simp add: results_content_def split: sum.split)
qed

text \<open>
  Claim C9 as stated fails for a results list that is not empty: when its first item is
  \<^verbatim>\<open>null\<close>, or when the \<^verbatim>\<open>suggestions\<close> of the first item are a string, the render
  of the help message still throws.
\<close>

theorem non_empty_help_results_can_fault:
  "renderHelpMessage (JArr [JNull]) = Inl TypeError
   \<and> results_content (JObj [(''query_type'', JStr ''help''), (''results'', JArr [JNull])]) =
       Inl TypeError
   \<and> renderHelpMessage
       (JArr [JObj [(''message'', JStr ''Try a simpler question''),
                    (''suggestions'', JStr ''Ask about employees'')]]) = Inl TypeError"
  by (simp add: results_content_help renderHelpMessage_null_first renderHelpMessage_first
      nullish_def read_prop_def)

text \<open>
  Claim C9, amended. \<open>renderHelpMessage\<close> reads \<^verbatim>\<open>data[0].message\<close> without a check.
  For the payload with \<^verbatim>\<open>query_type\<close> "help" and an empty \<^verbatim>\<open>results\<close> list the
  component reaches its results screen and the content block throws. For a list that is
  not empty the render gives a view exactly when the first item is not \<^verbatim>\<open>null\<close> (or
  \<^verbatim>\<open>undefined\<close>) and its \<^verbatim>\<open>suggestions\<close> are falsy or an array; the view then holds the
  message of the first item, and the suggestions when they are an array.
\<close>

theorem help_render_is_partial:
  "renderHelpMessage (JArr []) = Inl TypeError
   \<and> ResultsView_screen (JObj [(''query_type'', JStr ''help''), (''results'', JArr [])]) False =
       Inr ResultsScreen
   \<and> results_content (JObj [(''query_type'', JStr ''help''), (''results'', JArr [])]) =
       Inl TypeError
   \<and> ((\<exists>v. renderHelpMessage (JArr (first # rest)) = Inr v) =
       (\<not> nullish first \<and>
        (truthy (read_prop first ''suggestions'') \<longrightarrow>
           (\<exists>xs. read_prop first ''suggestions'' = JArr xs))))
   \<and> (\<not> nullish first \<longrightarrow> \<not> truthy (read_prop first ''suggestions'') \<longrightarrow>
        renderHelpMessage (JArr (first # rest)) = Inr (read_prop first ''message'', None))
   \<and> (\<not> nullish first \<longrightarrow> read_prop first ''suggestions'' = JArr xs \<longrightarrow>
        renderHelpMessage (JArr (first # rest)) = Inr (read_prop first ''message'', Some xs))"
proof (intro conjI impI)
  show "renderHelpMessage (JArr []) = Inl TypeError"
    by (rule renderHelpMessage_empty)
  show "ResultsView_screen (JObj [(''query_type'', JStr ''help''), (''results'', JArr [])]) False =
      Inr ResultsScreen"
    by (simp add: ResultsView_screen_def)
  show "results_content (JObj [(''query_type'', JStr ''help''), (''results'', JArr [])]) =
      Inl TypeError"
    by (simp add: results_content_help renderHelpMessage_empty read_prop_def)
  show "(\<exists>v. renderHelpMessage (JArr (first # rest)) = Inr v) =
       (\<not> nullish first \<and>
        (truthy (read_prop first ''suggestions'') \<longrightarrow>
           (\<exists>xs. read_prop first ''suggestions'' = JArr xs)))"
  proof (cases "nullish first")
    case True
    then show ?thesis by (simp add: renderHelpMessage_null_first)
  next
    case False
    then show ?thesis
      by (cases "read_prop first ''suggestions''") (simp_all add: renderHelpMessage_first)
  qed
next
  assume "\<not> nullish first" and "\<not> truthy (read_prop first ''suggestions'')"
  then show "renderHelpMessage (JArr (first # rest)) = Inr (read_prop first ''message'', None)"
    by (simp add: renderHelpMessage_first)
next
  assume "\<not> nullish first" and "read_prop first ''suggestions'' = JArr xs"
  then show "renderHelpMessage (JArr (first # rest)) = Inr (read_prop first ''message'', Some xs)"
    by (simp add: renderHelpMessage_first)
qed

theorem help_render_is_partial_witness:
  "\<not> nullish (JObj [(''message'', JStr ''Try asking about employees''),
                     (''suggestions'', JArr [JStr ''How many employees do we have?''])])
   \<and> renderHelpMessage
       (JArr [JObj [(''message'', JStr ''Try asking about employees''),
                    (''suggestions'', JArr [JStr ''How many employees do we have?''])]]) =
     Inr (JStr ''Try asking about employees'', Some [JStr ''How many employees do we have?''])
   \<and> \<not> truthy (read_prop (JObj [(''message'', JStr ''No data yet'')]) ''suggestions'')
   \<and> renderHelpMessage (JArr [JObj [(''message'', JStr ''No data yet'')]]) =
     Inr (JStr ''No data yet'', None)"
  using
    help_render_is_partial
      [where first = "JObj [(''message'', JStr ''Try asking about employees''),
                            (''suggestions'', JArr [JStr ''How many employees do we have?''])]"
         and rest = "[]" and xs = "[JStr ''How many employees do we have?'']"]
    help_render_is_partial
      [where first = "JObj [(''message'', JStr ''No data yet'')]" and rest = "[]"]
  by (simp add: nullish_def read_prop_def)

section \<open>Export\<close>




lemma exportToCSV_empty: "exportToCSV [] = Inr None"
  by (simp add: exportToCSV_def)









section \<open>The polling protocol\<close>

lemma pollConnectionStatus_ok:
  assumes "\<not> nullish data"
  shows "pollConnectionStatus j (Responds True (Some data)) =
     Fetch (IngestionStatus j) #
     (if read_prop data ''status'' = JStr ''completed''
      then [SetIsConnecting False, OnConnectionSuccess (read_prop data ''schema'')]
      else if read_prop data ''status'' = JStr ''failed''
      then [SetError (if truthy (read_prop data ''message'') then read_prop data ''message''
                      else JStr ''Connection failed''),
            SetIsConnecting False]
      else [SetTimeout (PollConnectionStatus j) 1000])"
  by (simp add: pollConnectionStatus_def pollConnectionStatus_try_def js_or_def
      get_prop_read_prop [OF assms])

lemma pollUploadStatus_ok:
  assumes "\<not> nullish data"
  shows "pollUploadStatus j n now (Responds True (Some data)) =
     Fetch (IngestionStatus j) #
     SetUploadProgress (if truthy (read_prop data ''progress'') then read_prop data ''progress''
                        else JNum 0) #
     (if read_prop data ''status'' = JStr ''completed''
      then [SetIsUploading False, SetUploadProgress (JNum 100),
            AddUploadedFiles j n now (read_prop data ''message''),
            OnDocumentsUploaded n, ClearFileInput]
      else if read_prop data ''status'' = JStr ''failed''
      then [SetError (if truthy (read_prop data ''message'') then read_prop data ''message''
                      else JStr ''Upload failed''),
            SetIsUploading False]
      else [SetTimeout (PollUploadStatus j n) 1000])"
  by (simp add: pollUploadStatus_def pollUploadStatus_try_def js_or_def
      get_prop_read_prop [OF assms])

lemma pollConnectionStatus_null_body:
  assumes "nullish data"
  shows "pollConnectionStatus j (Responds True (Some data)) =
     [Fetch (IngestionStatus j), SetError (JStr ''Network error while checking status''),
      SetIsConnecting False]"
  by (simp add: pollConnectionStatus_def pollConnectionStatus_try_def
      get_prop_nullish [OF assms])

lemma pollUploadStatus_null_body:
  assumes "nullish data"
  shows "pollUploadStatus j n now (Responds True (Some data)) =
     [Fetch (IngestionStatus j), SetError (JStr ''Network error while checking status''),
      SetIsUploading False]"
  by (simp add: pollUploadStatus_def pollUploadStatus_try_def get_prop_nullish [OF assms])

lemma pollConnectionStatus_no_body:
  "pollConnectionStatus j (Responds True None) =
     [Fetch (IngestionStatus j), SetError (JStr ''Network error while checking status''),
      SetIsConnecting False]"
  by (simp add: pollConnectionStatus_def pollConnectionStatus_try_def)

lemma pollUploadStatus_no_body:
  "pollUploadStatus j n now (Responds True None) =
     [Fetch (IngestionStatus j), SetError (JStr ''Network error while checking status''),
      SetIsUploading False]"
  by (simp add: pollUploadStatus_def pollUploadStatus_try_def)

lemma fetch_result_cases [case_names Rejects Not_ok No_body Null_body Body]:
  obtains "r = Rejects"
  | body where "r = Responds False body"
  | "r = Responds True None"
  | data where "r = Responds True (Some data)" and "nullish data"
  | data where "r = Responds True (Some data)" and "\<not> nullish data"
proof (cases r)
  case Rejects
  then show ?thesis by (rule that(1))
next
  case (Responds ok body)
  show ?thesis
  proof (cases ok)
    case False
    with Responds show ?thesis by (simp add: that(2))
  next
    case True
    show ?thesis
    proof (cases body)
      case None
      with Responds True show ?thesis by (simp add: that(3))
    next
      case (Some data)
      with Responds True show ?thesis
        by (cases "nullish data") (simp_all add: that(4) that(5))
    qed
  qed
qed

lemma pollConnectionStatus_shape:
  "continues (PollConnectionStatus j) (pollConnectionStatus j r) \<or> ends (pollConnectionStatus j r)"
  by (cases r rule: fetch_result_cases)
    (simp_all add: pollConnectionStatus_Rejects pollConnectionStatus_not_ok
      pollConnectionStatus_no_body pollConnectionStatus_null_body pollConnectionStatus_ok
      ends_def continues_def)

lemma pollUploadStatus_shape:
  "continues (PollUploadStatus j n) (pollUploadStatus j n now r) \<or> ends (pollUploadStatus j n now r)"
  by (cases r rule: fetch_result_cases)
    (simp_all add: pollUploadStatus_Rejects pollUploadStatus_not_ok
      pollUploadStatus_no_body pollUploadStatus_null_body pollUploadStatus_ok
      ends_def continues_def)

lemma pollConnectionStatus_no_progress: "progress_updates (pollConnectionStatus j r) = []"
  by (cases r rule: fetch_result_cases)
    (simp_all add: pollConnectionStatus_Rejects pollConnectionStatus_not_ok
      pollConnectionStatus_no_body pollConnectionStatus_null_body pollConnectionStatus_ok)

lemma exec_shape: "continues c (exec now c r) \<or> ends (exec now c r)"
  by (cases c) (simp_all add: pollConnectionStatus_shape pollUploadStatus_shape)

lemma scheduled_append: "scheduled (xs @ ys) = scheduled xs @ scheduled ys"
  by (induction xs rule: scheduled.induct) simp_all

lemma delays_append: "delays (xs @ ys) = delays xs @ delays ys"
  by (induction xs rule: delays.induct) simp_all

lemma requests_append: "requests (xs @ ys) = requests xs @ requests ys"
  by (induction xs rule: requests.induct) simp_all

lemma run_step:
  "run now c (r # rs) =
     (if ends (exec now c r) then exec now c r else exec now c r @ run now c rs)"
  using exec_shape [of c now r] by (auto simp: continues_def ends_def Let_def)

declare run.simps(2) [simp del]

lemma run_terminal: "length (filter is_terminal (run now c rs)) \<le> 1"
proof (induction rs)
  case Nil
  then show ?case by simp
next
  case (Cons r rs)
  show ?case
  proof (cases "ends (exec now c r)")
    case True
    then show ?thesis by (simp add: run_step ends_def)
  next
    case False
    with exec_shape [of c now r] have "filter is_terminal (exec now c r) = []"
      by (simp add: continues_def)
    with False Cons show ?thesis by (simp add: run_step)
  qed
qed

lemma run_accounting:
  "length (requests (run now c rs)) =
     length (scheduled (run now c rs)) + length (filter is_terminal (run now c rs))"
proof (induction rs)
  case Nil
  then show ?case by simp
next
  case (Cons r rs)
  show ?case
  proof (cases "ends (exec now c r)")
    case True
    then show ?thesis by (simp add: run_step ends_def)
  next
    case False
    with exec_shape [of c now r] have "continues c (exec now c r)" by simp
    with False Cons show ?thesis
      by (simp add: run_step continues_def requests_append scheduled_append)
  qed
qed

lemma run_timers:
  "scheduled (run now c rs) = replicate (length (scheduled (run now c rs))) c
   \<and> delays (run now c rs) = replicate (length (scheduled (run now c rs))) 1000"
proof (induction rs)
  case Nil
  then show ?case by simp
next
  case (Cons r rs)
  show ?case
  proof (cases "ends (exec now c r)")
    case True
    then show ?thesis by (simp add: run_step ends_def)
  next
    case False
    with exec_shape [of c now r] have "continues c (exec now c r)" by simp
    with False Cons show ?thesis
      by (simp add: run_step continues_def delays_append scheduled_append)
  qed
qed

lemma run_stops:
  "filter is_terminal (run now c rs) \<noteq> [] \<Longrightarrow> run now c (rs @ later) = run now c rs"
proof (induction rs)
  case Nil
  then show ?case by simp
next
  case (Cons r rs)
  show ?case
  proof (cases "ends (exec now c r)")
    case True
    then show ?thesis by (simp add: run_step)
  next
    case False
    with exec_shape [of c now r] have "filter is_terminal (exec now c r) = []"
      by (simp add: continues_def)
    with False Cons show ?thesis by (simp add: run_step)
  qed
qed

lemma progress_updates_append:
  "progress_updates (xs @ ys) = progress_updates xs @ progress_updates ys"
  by (induction xs rule: progress_updates.induct) simp_all

lemma run_connection_no_progress:
  "progress_updates (run now (PollConnectionStatus j) rs) = []"
proof (induction rs)
  case Nil
  then show ?case by simp
next
  case (Cons r rs)
  then show ?case
    by (simp add: run_step progress_updates_append pollConnectionStatus_no_progress)
qed

text \<open>
  Claim C1 as stated fails on the progress. The poller of the database connection gets
  a response that is still processing and carries a progress of 40, and records nothing:
  it only starts the next timer. The poller of the document upload gets a response
  without a progress and sets the progress to 0.
\<close>

theorem progress_is_not_tracked_as_stated:
  "pollConnectionStatus (JStr ''job-1'')
     (Responds True (Some (JObj [(''status'', JStr ''processing''), (''progress'', JNum 40)]))) =
   [Fetch (IngestionStatus (JStr ''job-1'')),
    SetTimeout (PollConnectionStatus (JStr ''job-1'')) 1000]
   \<and> pollUploadStatus (JStr ''job-2'') 3 ''10:15:00''
     (Responds True (Some (JObj [(''status'', JStr ''processing'')]))) =
   [Fetch (IngestionStatus (JStr ''job-2'')), SetUploadProgress (JNum 0),
    SetTimeout (PollUploadStatus (JStr ''job-2'') 3) 1000]"
  by (simp add: pollConnectionStatus_ok pollUploadStatus_ok nullish_def read_prop_def)

text \<open>
  Claim C1, amended. For a 2xx response whose body \<open>data\<close> is a JSON value with readable
  properties, one step of either poller sends one status request and then: for the
  status "completed" it leaves the busy state and hands the payload to the success
  callback once (the schema of the body for a database connection, the number of files
  for an upload); for the status "failed" it sets the error once, to the message of the
  body, or to a fixed text when the message is falsy; for any other status it starts one
  timer of 1000 ms for the same call and does nothing else that ends the job. Progress
  is recorded for uploads only: every such response sets it to the progress of the body,
  or to 0 when that is falsy. For every sequence \<open>rs\<close> of outcomes of the status requests
  of one job, the run has at most one terminal action (a success callback or an error),
  every request is followed by exactly one of a timer or a terminal action, every timer
  is one of 1000 ms for the same call, and after a terminal action no further request is
  sent, whatever outcomes \<open>later\<close> requests would have. A run of the poller of the database
  connection never sets a progress.
\<close>

theorem poll_protocol:
  assumes "\<not> nullish data"
  shows "pollConnectionStatus j (Responds True (Some data)) =
       Fetch (IngestionStatus j) #
       (if read_prop data ''status'' = JStr ''completed''
        then [SetIsConnecting False, OnConnectionSuccess (read_prop data ''schema'')]
        else if read_prop data ''status'' = JStr ''failed''
        then [SetError (if truthy (read_prop data ''message'') then read_prop data ''message''
                        else JStr ''Connection failed''),
              SetIsConnecting False]
        else [SetTimeout (PollConnectionStatus j) 1000])
    \<and> pollUploadStatus j n now (Responds True (Some data)) =
       Fetch (IngestionStatus j) #
       SetUploadProgress (if truthy (read_prop data ''progress'') then read_prop data ''progress''
                          else JNum 0) #
       (if read_prop data ''status'' = JStr ''completed''
        then [SetIsUploading False, SetUploadProgress (JNum 100),
              AddUploadedFiles j n now (read_prop data ''message''),
              OnDocumentsUploaded n, ClearFileInput]
        else if read_prop data ''status'' = JStr ''failed''
        then [SetError (if truthy (read_prop data ''message'') then read_prop data ''message''
                        else JStr ''Upload failed''),
              SetIsUploading False]
        else [SetTimeout (PollUploadStatus j n) 1000])
    \<and> length (filter is_terminal (run now c rs)) \<le> 1
    \<and> length (requests (run now c rs)) =
        length (scheduled (run now c rs)) + length (filter is_terminal (run now c rs))
    \<and> scheduled (run now c rs) = replicate (length (scheduled (run now c rs))) c
    \<and> delays (run now c rs) = replicate (length (scheduled (run now c rs))) 1000
    \<and> (filter is_terminal (run now c rs) \<noteq> [] \<longrightarrow> run now c (rs @ later) = run now c rs)
    \<and> progress_updates (run now (PollConnectionStatus j) rs) = []"
proof (intro conjI impI)
  show "progress_updates (run now (PollConnectionStatus j) rs) = []"
    by (rule run_connection_no_progress)
  show "pollConnectionStatus j (Responds True (Some data)) =
       Fetch (IngestionStatus j) #
       (if read_prop data ''status'' = JStr ''completed''
        then [SetIsConnecting False, OnConnectionSuccess (read_prop data ''schema'')]
        else if read_prop data ''status'' = JStr ''failed''
        then [SetError (if truthy (read_prop data ''message'') then read_prop data ''message''
                        else JStr ''Connection failed''),
              SetIsConnecting False]
        else [SetTimeout (PollConnectionStatus j) 1000])"
    using assms by (rule pollConnectionStatus_ok)
  show "pollUploadStatus j n now (Responds True (Some data)) =
       Fetch (IngestionStatus j) #
       SetUploadProgress (if truthy (read_prop data ''progress'') then read_prop data ''progress''
                          else JNum 0) #
       (if read_prop data ''status'' = JStr ''completed''
        then [SetIsUploading False, SetUploadProgress (JNum 100),
              AddUploadedFiles j n now (read_prop data ''message''),
              OnDocumentsUploaded n, ClearFileInput]
        else if read_prop data ''status'' = JStr ''failed''
        then [SetError (if truthy (read_prop data ''message'') then read_prop data ''message''
                        else JStr ''Upload failed''),
              SetIsUploading False]
        else [SetTimeout (PollUploadStatus j n) 1000])"
    using assms by (rule pollUploadStatus_ok)
  show "length (filter is_terminal (run now c rs)) \<le> 1"
    by (rule run_terminal)
  show "length (requests (run now c rs)) =
        length (scheduled (run now c rs)) + length (filter is_terminal (run now c rs))"
    by (rule run_accounting)
  show "scheduled (run now c rs) = replicate (length (scheduled (run now c rs))) c"
    using run_timers [of now c rs] by simp
  show "delays (run now c rs) = replicate (length (scheduled (run now c rs))) 1000"
    using run_timers [of now c rs] by simp
next
  assume "filter is_terminal (run now c rs) \<noteq> []"
  then show "run now c (rs @ later) = run now c rs"
    by (rule run_stops)
qed

theorem poll_protocol_witness:
  "\<not> nullish (JObj [(''status'', JStr ''completed''), (''schema'', JObj [(''total_tables'', JNum 3)])])
   \<and> run ''10:15:00'' (PollConnectionStatus (JStr ''job-1''))
       [Responds True (Some (JObj [(''status'', JStr ''processing''), (''progress'', JNum 40)])),
        Responds True (Some (JObj [(''status'', JStr ''processing''), (''progress'', JNum 40)])),
        Responds True (Some (JObj [(''status'', JStr ''processing''), (''progress'', JNum 40)])),
        Responds True (Some (JObj [(''status'', JStr ''completed''),
                                   (''schema'', JObj [(''total_tables'', JNum 3)])])),
        Responds True (Some (JObj [(''status'', JStr ''completed''),
                                   (''schema'', JObj [(''total_tables'', JNum 3)])]))] =
     [Fetch (IngestionStatus (JStr ''job-1'')),
      SetTimeout (PollConnectionStatus (JStr ''job-1'')) 1000,
      Fetch (IngestionStatus (JStr ''job-1'')),
      SetTimeout (PollConnectionStatus (JStr ''job-1'')) 1000,
      Fetch (IngestionStatus (JStr ''job-1'')),
      SetTimeout (PollConnectionStatus (JStr ''job-1'')) 1000,
      Fetch (IngestionStatus (JStr ''job-1'')),
      SetIsConnecting False, OnConnectionSuccess (JObj [(''total_tables'', JNum 3)])]
   \<and> pollUploadStatus (JStr ''job-2'') 2 ''10:15:00''
       (Responds True (Some (JObj [(''status'', JStr ''completed''),
                                   (''schema'', JObj [(''total_tables'', JNum 3)])]))) =
     [Fetch (IngestionStatus (JStr ''job-2'')), SetUploadProgress (JNum 0),
      SetIsUploading False, SetUploadProgress (JNum 100),
      AddUploadedFiles (JStr ''job-2'') 2 ''10:15:00'' JUndefined,
      OnDocumentsUploaded 2, ClearFileInput]"
proof -
  let ?busy = "Responds True (Some (JObj [(''status'', JStr ''processing''), (''progress'', JNum 40)]))"
  let ?body = "JObj [(''status'', JStr ''completed''), (''schema'', JObj [(''total_tables'', JNum 3)])]"
  have body: "\<not> nullish ?body"
    by (simp add: nullish_def)
  have busy: "pollConnectionStatus (JStr ''job-1'') ?busy =
      [Fetch (IngestionStatus (JStr ''job-1'')),
       SetTimeout (PollConnectionStatus (JStr ''job-1'')) 1000]"
    by (simp add: pollConnectionStatus_ok nullish_def read_prop_def)
  note step = poll_protocol [OF body, where j = "JStr ''job-1''"]
  note upload = poll_protocol [OF body, where j = "JStr ''job-2''" and n = 2 and now = "''10:15:00''"]
  from step have completed: "pollConnectionStatus (JStr ''job-1'') (Responds True (Some ?body)) =
      [Fetch (IngestionStatus (JStr ''job-1'')), SetIsConnecting False,
       OnConnectionSuccess (JObj [(''total_tables'', JNum 3)])]"
    by (simp add: read_prop_def)
  from upload have up: "pollUploadStatus (JStr ''job-2'') 2 ''10:15:00'' (Responds True (Some ?body)) =
     [Fetch (IngestionStatus (JStr ''job-2'')), SetUploadProgress (JNum 0),
      SetIsUploading False, SetUploadProgress (JNum 100),
      AddUploadedFiles (JStr ''job-2'') 2 ''10:15:00'' JUndefined,
      OnDocumentsUploaded 2, ClearFileInput]"
    by (simp add: read_prop_def)
  show ?thesis
    using body up by (simp add: run.simps busy completed)
qed

end
